theory Spec2Isabelle
  imports Main
begin

section \<open>The WebWorker component of react-webworker\<close>

text \<open>
  The development follows the current revision of \<^verbatim>\<open>src/index.js\<close> (the second
  component in the file, with Service Worker and MessageChannel support). Where the
  first revision in the same file differs and a statement depends on it (the default
  value of the React context), the first revision is modelled beside it under a name of
  its own.

  Conventions of the embedding:
  \<^item> \<^verbatim>\<open>new Date()\<close> is a parameter \<open>now\<close> of the operation that reads the clock;
  \<^item> every operation returns the instance after the call, the effects it had on the
    outside world in order (an effect list), and the exception it raised, if any;
  \<^item> \<^verbatim>\<open>this.setState(update, callback)\<close> on a mounted component commits the update,
    recorded as the effect \<open>SetState\<close> with the committed state, and then runs the
    callback; on a component that has been unmounted React ignores the call: nothing is
    committed and the callback never runs;
  \<^item> the props \<^verbatim>\<open>parser\<close> and \<^verbatim>\<open>serializer\<close> are total functions on values (a
    parser that throws is outside the model); the props
    \<^verbatim>\<open>onMessage\<close> and \<^verbatim>\<open>onError\<close> are opaque callbacks, of which the model keeps
    whether they are supplied and records each call as an effect.
\<close>

subsection \<open>Values\<close>

datatype js =
    JUndefined
  | JNull
  | JBool bool
  | JNum int
  | JStr string
  | JObj "(string \<times> js) list"

text \<open>JavaScript truthiness, as \<^verbatim>\<open>||\<close> and \<^verbatim>\<open>&&\<close> test it.\<close>

fun truthy :: "js \<Rightarrow> bool" where
  "truthy JUndefined = False"
| "truthy JNull = False"
| "truthy (JBool b) = b"
| "truthy (JNum n) = (n \<noteq> 0)"
| "truthy (JStr s) = (s \<noteq> [])"
| "truthy (JObj _) = True"

type_synonym time = nat

datatype exn = TypeError | Error string

subsection \<open>Session state\<close>

datatype message_entry = MessageEntry (entry_data: js) (message_date: time)

datatype error_entry = ErrorEntry (entry_error: js) (error_date: time)

text \<open>
  The component's \<^verbatim>\<open>state\<close>. Its seventh slot, \<^verbatim>\<open>postMessage: this.postMessage\<close>, holds
  the bound send method and never changes; it is the function \<open>postMessage\<close> below.
\<close>

record state =
  messages :: "message_entry list"
  errors :: "error_entry list"
  data :: js
  error :: js
  updatedAt :: "time option"
  lastPostAt :: "time option"

definition getInitialState :: state where
  "getInitialState =
     \<lparr> messages = [], errors = [], data = JUndefined, error = JUndefined,
       updatedAt = None, lastPostAt = None \<rparr>"

subsection \<open>Worker handles\<close>

text \<open>
  A handle is a duck-typed object. The model keeps what the component reads from it:
  its identity, whether it has an \<^verbatim>\<open>onmessage\<close> slot (\<^verbatim>\<open>"onmessage" in worker\<close>),
  whether \<^verbatim>\<open>postMessage\<close> and \<^verbatim>\<open>terminate\<close> are defined, the value of its
  \<^verbatim>\<open>state\<close> property (\<^verbatim>\<open>undefined\<close> when it has none, as a plain Worker; one of the
  strings "installing", "installed", "activating", "activated", "redundant" on a Service
  Worker) and its \<^verbatim>\<open>controller\<close> (set on \<^verbatim>\<open>navigator.serviceWorker\<close>).
\<close>

datatype handle = Handle
  (ident: string)
  (has_onmessage: bool)
  (has_postMessage: bool)
  (hstate: js)
  (has_terminate: bool)
  (controller: "handle option")

text \<open>\<^verbatim>\<open>new window.Worker(url, options)\<close>: a platform Worker.\<close>

definition window_Worker :: "string \<Rightarrow> js \<Rightarrow> handle" where
  "window_Worker url options = Handle url True True JUndefined True None"

datatype channel = MessageChannel

datatype port = Port1 | Port2

subsection \<open>Props, instance and effects\<close>

record props =
  prop_url :: "string option"
  prop_options :: js
  prop_worker :: "handle option"
  prop_parser :: "(js \<Rightarrow> js) option"
  prop_serializer :: "(js \<Rightarrow> js) option"
  prop_onMessage :: bool
  prop_onError :: bool

text \<open>The instance fields: \<^verbatim>\<open>this.worker\<close>, \<^verbatim>\<open>this.messageChannel\<close>, \<^verbatim>\<open>this.mounted\<close>
  (undefined before mount, read only through \<^verbatim>\<open>!this.mounted\<close>) and \<^verbatim>\<open>this.state\<close>.\<close>

record bridge =
  worker :: "handle option"
  messageChannel :: "channel option"
  mounted :: bool
  state :: state

definition constructor :: bridge where
  "constructor =
     \<lparr> worker = None, messageChannel = None, mounted = False, state = getInitialState \<rparr>"

datatype slot =
    Worker_onmessage handle
  | Worker_onerror handle
  | Port1_onmessage
  | Port1_onmessageerror

datatype handler = This_onMessage | This_onError

datatype effect =
    NewWorker string js
  | NewMessageChannel
  | Bind slot handler
  | SetState state
  | OnMessageCb js
  | OnErrorCb js
  | PostMessageCall handle js "port list option"
  | Terminate handle

record outcome =
  after :: bridge
  effects :: "effect list"
  raised :: "exn option"

definition returns :: "bridge \<Rightarrow> effect list \<Rightarrow> outcome" where
  "returns b es = \<lparr> after = b, effects = es, raised = None \<rparr>"

definition throws :: "bridge \<Rightarrow> effect list \<Rightarrow> exn \<Rightarrow> outcome" where
  "throws b es e = \<lparr> after = b, effects = es, raised = Some e \<rparr>"

subsection \<open>Event handlers\<close>

datatype message_event = MessageEvent (ev_data: js)

datatype error_event = ErrorEvent (ev_error: js)

definition parse :: "props \<Rightarrow> js \<Rightarrow> js" where
  "parse p raw = (case prop_parser p of Some f \<Rightarrow> f raw | None \<Rightarrow> raw)"

definition onMessage :: "props \<Rightarrow> bridge \<Rightarrow> time \<Rightarrow> message_event \<Rightarrow> outcome" where
  "onMessage p b now message =
     (if \<not> mounted b then returns b []
      else
        let d = parse p (ev_data message);
            st = (state b)\<lparr> data := d, error := JUndefined,
                     messages := messages (state b) @ [MessageEntry d now],
                     updatedAt := Some now \<rparr>
        in returns (b\<lparr> state := st \<rparr>)
             (SetState st # (if prop_onMessage p then [OnMessageCb d] else [])))"

definition onError :: "props \<Rightarrow> bridge \<Rightarrow> time \<Rightarrow> error_event \<Rightarrow> outcome" where
  "onError p b now ev =
     (if \<not> mounted b then returns b []
      else
        let e = ev_error ev;
            st = (state b)\<lparr> error := e,
                     errors := errors (state b) @ [ErrorEntry e now],
                     updatedAt := Some now \<rparr>
        in returns (b\<lparr> state := st \<rparr>)
             (SetState st # (if prop_onError p then [OnErrorCb e] else [])))"

subsection \<open>Sending\<close>

definition serialize :: "props \<Rightarrow> js \<Rightarrow> js" where
  "serialize p x = (case prop_serializer p of Some f \<Rightarrow> f x | None \<Rightarrow> x)"

text \<open>
  \<^verbatim>\<open>postMessage\<close> reaches \<^verbatim>\<open>this.setState\<close> without looking at \<^verbatim>\<open>this.mounted\<close>.
  React does the looking: on an instance it has unmounted, \<^verbatim>\<open>setState\<close> commits nothing
  and its callback, which is where the dispatch happens, never runs. An instance that
  holds a worker is unmounted for React exactly when \<^verbatim>\<open>this.mounted\<close> is false: the
  flag is set as \<^verbatim>\<open>componentDidMount\<close> ends and cleared in \<^verbatim>\<open>componentWillUnmount\<close>,
  which React calls as it unmounts the instance.
\<close>

definition postMessage :: "props \<Rightarrow> bridge \<Rightarrow> time \<Rightarrow> js \<Rightarrow> outcome" where
  "postMessage p b now x =
     (case worker b of
        None \<Rightarrow> throws b [] (Error ''Worker not initialized'')
      | Some h \<Rightarrow>
          if \<not> has_postMessage h then throws b [] (Error ''Worker not initialized'')
          else if truthy (hstate h) \<and> hstate h \<noteq> JStr ''activated'' then returns b []
          else if \<not> mounted b then returns b []
          else
            let st = (state b)\<lparr> lastPostAt := Some now \<rparr>
            in returns (b\<lparr> state := st \<rparr>)
                 [SetState st,
                  PostMessageCall h (serialize p x)
                    (if messageChannel b \<noteq> None then Some [Port2] else None)])"

subsection \<open>Mount and unmount\<close>

text \<open>
  \<^verbatim>\<open>worker.controller || worker\<close>, reached when \<^verbatim>\<open>url\<close> is falsy. Reading
  \<^verbatim>\<open>controller\<close> of an absent \<^verbatim>\<open>worker\<close> prop is a TypeError.
\<close>

definition worker_from_prop :: "props \<Rightarrow> exn + handle \<times> effect list" where
  "worker_from_prop p =
     (case prop_worker p of
        None \<Rightarrow> Inl TypeError
      | Some w \<Rightarrow> Inr (case controller w of Some c \<Rightarrow> c | None \<Rightarrow> w, []))"

text \<open>
  \<^verbatim>\<open>url ? new window.Worker(url, options) : worker.controller || worker\<close>. The URL is a
  string prop; the empty string and the absent prop are falsy.
\<close>

definition resolve_worker :: "props \<Rightarrow> exn + handle \<times> effect list" where
  "resolve_worker p =
     (case prop_url p of
        None \<Rightarrow> worker_from_prop p
      | Some u \<Rightarrow>
          if u \<noteq> [] then Inr (window_Worker u (prop_options p), [NewWorker u (prop_options p)])
          else worker_from_prop p)"

definition componentDidMount :: "props \<Rightarrow> bridge \<Rightarrow> outcome" where
  "componentDidMount p b =
     (case resolve_worker p of
        Inl e \<Rightarrow> throws b [] e
      | Inr (h, made) \<Rightarrow>
          if has_onmessage h then
            returns (b\<lparr> worker := Some h, mounted := True \<rparr>)
              (made @ [Bind (Worker_onmessage h) This_onMessage,
                       Bind (Worker_onerror h) This_onError])
          else
            returns (b\<lparr> worker := Some h, messageChannel := Some MessageChannel,
                        mounted := True \<rparr>)
              (made @ [NewMessageChannel,
                       Bind Port1_onmessage This_onMessage,
                       Bind Port1_onmessageerror This_onError]))"

text \<open>
  \<^verbatim>\<open>this.mounted = false\<close> comes first, so the flag is cleared also when the call
  \<^verbatim>\<open>this.worker.terminate()\<close> then fails.
\<close>

definition componentWillUnmount :: "props \<Rightarrow> bridge \<Rightarrow> outcome" where
  "componentWillUnmount p b =
     (let b' = b\<lparr> mounted := False \<rparr>
      in if prop_worker p \<noteq> None then returns b' []
         else
           case worker b of
             None \<Rightarrow> throws b' [] TypeError
           | Some h \<Rightarrow>
               if has_terminate h then returns b' [Terminate h]
               else throws b' [] TypeError)"

subsection \<open>Sequences of calls\<close>

text \<open>
  The component is driven from outside: React mounts and unmounts it, the worker (or the
  message port) delivers events, a consumer calls \<^verbatim>\<open>postMessage\<close>. A run is a list of
  such calls, each with the clock reading it sees; it stops at the first exception, which
  the caller receives.
\<close>

datatype call =
    Mount
  | Unmount
  | Message time message_event
  | Failure time error_event
  | Send time js

fun step :: "props \<Rightarrow> bridge \<Rightarrow> call \<Rightarrow> outcome" where
  "step p b Mount = componentDidMount p b"
| "step p b Unmount = componentWillUnmount p b"
| "step p b (Message now m) = onMessage p b now m"
| "step p b (Failure now ev) = onError p b now ev"
| "step p b (Send now x) = postMessage p b now x"

fun run :: "props \<Rightarrow> bridge \<Rightarrow> call list \<Rightarrow> outcome" where
  "run p b [] = returns b []"
| "run p b (c # cs) =
     (let o1 = step p b c
      in case raised o1 of
           Some e \<Rightarrow> o1
         | None \<Rightarrow>
             (let o2 = run p (after o1) cs
              in o2\<lparr> effects := effects o1 @ effects o2 \<rparr>))"

subsection \<open>The context and the conditional helpers\<close>

text \<open>
  What a \<^verbatim>\<open>Consumer\<close> hands to its render function: the value of the nearest
  \<^verbatim>\<open>Provider\<close> above it (the component's state), or the default the context was
  created with. \<^verbatim>\<open>React.createContext()\<close> has the default \<^verbatim>\<open>undefined\<close>.
\<close>

datatype ctx_value = CtxUndefined | CtxState state

text \<open>The current revision and \<^verbatim>\<open>unnamed/part_002\<close>: \<^verbatim>\<open>React.createContext()\<close>.\<close>

definition context_default :: ctx_value where
  "context_default = CtxUndefined"

text \<open>The first revision: \<^verbatim>\<open>React.createContext(getInitialState())\<close>.\<close>

definition context_default_first :: ctx_value where
  "context_default_first = CtxState getInitialState"

definition Consumer :: "ctx_value \<Rightarrow> state option \<Rightarrow> (ctx_value \<Rightarrow> 'a) \<Rightarrow> 'a" where
  "Consumer dflt provided f =
     f (case provided of None \<Rightarrow> dflt | Some st \<Rightarrow> CtxState st)"

text \<open>
  \<^verbatim>\<open>children\<close> is a function, called with the arguments the helper passes, or a static
  node. What a helper returns is \<^verbatim>\<open>null\<close> or a node.
\<close>

datatype arg = ArgValue js | ArgState state

datatype node = Null | Node js

datatype children = FunctionContent "arg list \<Rightarrow> node" | StaticContent js

text \<open>\<^verbatim>\<open>typeof children === "function" ? children(...) : children || null\<close>\<close>

definition render_children :: "children \<Rightarrow> arg list \<Rightarrow> node" where
  "render_children ch args =
     (case ch of
        FunctionContent f \<Rightarrow> f args
      | StaticContent c \<Rightarrow> if truthy c then Node c else Null)"

text \<open>
  The render functions of the three helpers. Reading \<^verbatim>\<open>state.data\<close> or
  \<^verbatim>\<open>state.error\<close> of \<^verbatim>\<open>undefined\<close> is a TypeError.
\<close>

definition Pending_render :: "bool \<Rightarrow> children \<Rightarrow> ctx_value \<Rightarrow> exn + node" where
  "Pending_render persist ch v =
     (case v of
        CtxUndefined \<Rightarrow> Inl TypeError
      | CtxState st \<Rightarrow>
          if data st \<noteq> JUndefined then Inr Null
          else if \<not> persist \<and> error st \<noteq> JUndefined then Inr Null
          else Inr (render_children ch [ArgState st]))"

definition Data_render :: "children \<Rightarrow> ctx_value \<Rightarrow> exn + node" where
  "Data_render ch v =
     (case v of
        CtxUndefined \<Rightarrow> Inl TypeError
      | CtxState st \<Rightarrow>
          if data st = JUndefined then Inr Null
          else Inr (render_children ch [ArgValue (data st), ArgState st]))"

definition Error_render :: "children \<Rightarrow> ctx_value \<Rightarrow> exn + node" where
  "Error_render ch v =
     (case v of
        CtxUndefined \<Rightarrow> Inl TypeError
      | CtxState st \<Rightarrow>
          if error st = JUndefined then Inr Null
          else Inr (render_children ch [ArgValue (error st), ArgState st]))"

text \<open>
  \<^verbatim>\<open>WebWorker.Pending\<close>, \<^verbatim>\<open>WebWorker.Data\<close> and \<^verbatim>\<open>WebWorker.Error\<close>: a \<^verbatim>\<open>Consumer\<close>
  around the render function. \<open>dflt\<close> is the default of the context, \<open>provided\<close> the
  state of the enclosing component when there is one.
\<close>

definition Pending :: "ctx_value \<Rightarrow> state option \<Rightarrow> bool \<Rightarrow> children \<Rightarrow> exn + node" where
  "Pending dflt provided persist ch = Consumer dflt provided (Pending_render persist ch)"

definition Data :: "ctx_value \<Rightarrow> state option \<Rightarrow> children \<Rightarrow> exn + node" where
  "Data dflt provided ch = Consumer dflt provided (Data_render ch)"

definition Error_helper :: "ctx_value \<Rightarrow> state option \<Rightarrow> children \<Rightarrow> exn + node" where
  "Error_helper dflt provided ch = Consumer dflt provided (Error_render ch)"

subsection \<open>Vocabulary of the statements\<close>

text \<open>A sequence of inbound message events, each with the time of its delivery.\<close>

definition message_calls :: "(time \<times> message_event) list \<Rightarrow> call list" where
  "message_calls evs = map (\<lambda>(t, m). Message t m) evs"

text \<open>The entry that a delivered message leaves in \<^verbatim>\<open>messages\<close>.\<close>

definition parsed_entry :: "props \<Rightarrow> time \<times> message_event \<Rightarrow> message_entry" where
  "parsed_entry p = (\<lambda>(t, m). MessageEntry (parse p (ev_data m)) t)"

text \<open>A sequence of inbound error events, each with the time of its delivery.\<close>

definition error_calls :: "(time \<times> error_event) list \<Rightarrow> call list" where
  "error_calls evs = map (\<lambda>(t, ev). Failure t ev) evs"

definition error_entry_of :: "time \<times> error_event \<Rightarrow> error_entry" where
  "error_entry_of = (\<lambda>(t, ev). ErrorEntry (ev_error ev) t)"

fun is_callback :: "effect \<Rightarrow> bool" where
  "is_callback (OnMessageCb _) = True"
| "is_callback (OnErrorCb _) = True"
| "is_callback _ = False"

text \<open>Calls that come from the worker: message and error events.\<close>

fun is_event :: "call \<Rightarrow> bool" where
  "is_event (Message _ _) = True"
| "is_event (Failure _ _) = True"
| "is_event _ = False"

fun is_dispatch :: "effect \<Rightarrow> bool" where
  "is_dispatch (PostMessageCall _ _ _) = True"
| "is_dispatch _ = False"

text \<open>
  The guard of \<^verbatim>\<open>postMessage\<close>:
  \<^verbatim>\<open>this.worker.state && this.worker.state !== "activated"\<close>.
\<close>

definition inactive :: "handle \<Rightarrow> bool" where
  "inactive h = (truthy (hstate h) \<and> hstate h \<noteq> JStr ''activated'')"

subsection \<open>Configurations used as concrete inputs\<close>

definition no_props :: props where
  "no_props =
     \<lparr> prop_url = None, prop_options = JUndefined, prop_worker = None,
       prop_parser = None, prop_serializer = None,
       prop_onMessage = False, prop_onError = False \<rparr>"

definition url_props :: props where
  "url_props = no_props\<lparr> prop_url := Some ''/worker.js'', prop_onMessage := True,
                          prop_onError := True \<rparr>"

text \<open>A parser and serializer that wrap the value in an object, as a stand-in for a codec.\<close>

definition wrap :: "js \<Rightarrow> js" where
  "wrap v = JObj [(''payload'', v)]"

definition codec_props :: props where
  "codec_props = url_props\<lparr> prop_parser := Some wrap, prop_serializer := Some wrap \<rparr>"

definition customWorker :: handle where
  "customWorker = Handle ''customWorker'' True True JUndefined True None"

text \<open>A Service Worker: no \<^verbatim>\<open>onmessage\<close> slot, no \<^verbatim>\<open>terminate\<close>, a lifecycle state.\<close>

definition serviceWorker :: "string \<Rightarrow> handle" where
  "serviceWorker st = Handle ''serviceWorker'' False True (JStr st) False None"

definition custom_props :: props where
  "custom_props = no_props\<lparr> prop_worker := Some customWorker \<rparr>"

definition sw_props :: "string \<Rightarrow> props" where
  "sw_props st = no_props\<lparr> prop_worker := Some (serviceWorker st) \<rparr>"

text \<open>
  Two caller-supplied objects: one with the state "installing" and no \<^verbatim>\<open>postMessage\<close>,
  one with a \<^verbatim>\<open>postMessage\<close> and the empty string as its state.
\<close>

definition installingStub :: handle where
  "installingStub = Handle ''installingStub'' True False (JStr ''installing'') False None"

definition blankStateWorker :: handle where
  "blankStateWorker = Handle ''blankStateWorker'' True True (JStr []) False None"

definition stub_props :: props where
  "stub_props = no_props\<lparr> prop_worker := Some installingStub \<rparr>"

definition blank_props :: props where
  "blank_props = no_props\<lparr> prop_worker := Some blankStateWorker \<rparr>"

text \<open>A function child that shows which arguments it was called with.\<close>

fun show_args :: "arg list \<Rightarrow> node" where
  "show_args [ArgState st] = Node (JStr ''state only'')"
| "show_args [ArgValue v, ArgState st] = Node v"
| "show_args _ = Null"

text \<open>Both \<^verbatim>\<open>url\<close> and \<^verbatim>\<open>worker\<close> supplied.\<close>

definition both_props :: props where
  "both_props = url_props\<lparr> prop_worker := Some customWorker \<rparr>"

definition foo_bar_baz :: "(time \<times> message_event) list" where
  "foo_bar_baz =
     [(1, MessageEvent (JStr ''foo'')), (2, MessageEvent (JStr ''bar'')),
      (3, MessageEvent (JStr ''baz''))]"

text \<open>A message and an error that arrive late.\<close>

definition late_events :: "call list" where
  "late_events =
     [Message 5 (MessageEvent (JStr ''foo'')), Failure 6 (ErrorEvent (JStr ''boom''))]"

text \<open>A mounted component that has received the message \<^verbatim>\<open>"baz"\<close> at time 3.\<close>

definition received_state :: state where
  "received_state =
     getInitialState\<lparr> data := JStr ''baz'', messages := [MessageEntry (JStr ''baz'') 3],
                         updatedAt := Some 3 \<rparr>"

definition received_baz :: bridge where
  "received_baz =
     \<lparr> worker = Some customWorker, messageChannel = None, mounted = True,
       state = received_state \<rparr>"

text \<open>The state of a component that has received only the error \<^verbatim>\<open>"boom"\<close>, at time 4.\<close>

definition failed_state :: state where
  "failed_state =
     getInitialState\<lparr> error := JStr ''boom'', errors := [ErrorEntry (JStr ''boom'') 4],
                         updatedAt := Some 4 \<rparr>"

section \<open>Mounting the example configurations\<close>

lemma mount_url:
  "after (componentDidMount url_props constructor) =
     \<lparr> worker = Some (window_Worker ''/worker.js'' JUndefined), messageChannel = None,
       mounted = True, state = getInitialState \<rparr>"
  "effects (componentDidMount url_props constructor) =
     [NewWorker ''/worker.js'' JUndefined,
      Bind (Worker_onmessage (window_Worker ''/worker.js'' JUndefined)) This_onMessage,
      Bind (Worker_onerror (window_Worker ''/worker.js'' JUndefined)) This_onError]"
  "raised (componentDidMount url_props constructor) = None"
  by (simp_all add: componentDidMount_def resolve_worker_def url_props_def no_props_def
      window_Worker_def returns_def constructor_def)

lemma mount_sw:
  "after (componentDidMount (sw_props st) constructor) =
     \<lparr> worker = Some (serviceWorker st), messageChannel = Some MessageChannel,
       mounted = True, state = getInitialState \<rparr>"
  "effects (componentDidMount (sw_props st) constructor) =
     [NewMessageChannel, Bind Port1_onmessage This_onMessage,
      Bind Port1_onmessageerror This_onError]"
  "raised (componentDidMount (sw_props st) constructor) = None"
  by (simp_all add: componentDidMount_def resolve_worker_def worker_from_prop_def sw_props_def
      no_props_def serviceWorker_def returns_def constructor_def)

lemma mount_custom:
  "after (componentDidMount custom_props constructor) =
     \<lparr> worker = Some customWorker, messageChannel = None,
       mounted = True, state = getInitialState \<rparr>"
  "effects (componentDidMount custom_props constructor) =
     [Bind (Worker_onmessage customWorker) This_onMessage,
      Bind (Worker_onerror customWorker) This_onError]"
  "raised (componentDidMount custom_props constructor) = None"
  by (simp_all add: componentDidMount_def resolve_worker_def worker_from_prop_def
      custom_props_def no_props_def customWorker_def returns_def constructor_def)

lemma mount_stub:
  "after (componentDidMount stub_props constructor) =
     \<lparr> worker = Some installingStub, messageChannel = None,
       mounted = True, state = getInitialState \<rparr>"
  by (simp add: componentDidMount_def resolve_worker_def worker_from_prop_def
      stub_props_def no_props_def installingStub_def returns_def constructor_def)

lemma mount_blank:
  "after (componentDidMount blank_props constructor) =
     \<lparr> worker = Some blankStateWorker, messageChannel = None,
       mounted = True, state = getInitialState \<rparr>"
  by (simp add: componentDidMount_def resolve_worker_def worker_from_prop_def
      blank_props_def no_props_def blankStateWorker_def returns_def constructor_def)

section \<open>Inbound messages\<close>

lemma onMessage_mounted:
  assumes "mounted b"
  shows "raised (onMessage p b now m) = None"
    and "mounted (after (onMessage p b now m))"
    and "worker (after (onMessage p b now m)) = worker b"
    and "messageChannel (after (onMessage p b now m)) = messageChannel b"
    and "messages (state (after (onMessage p b now m))) =
           messages (state b) @ [MessageEntry (parse p (ev_data m)) now]"
    and "errors (state (after (onMessage p b now m))) = errors (state b)"
    and "data (state (after (onMessage p b now m))) = parse p (ev_data m)"
    and "error (state (after (onMessage p b now m))) = JUndefined"
    and "updatedAt (state (after (onMessage p b now m))) = Some now"
    and "lastPostAt (state (after (onMessage p b now m))) = lastPostAt (state b)"
    and "effects (onMessage p b now m) =
           SetState (state (after (onMessage p b now m)))
           # (if prop_onMessage p then [OnMessageCb (parse p (ev_data m))] else [])"
  using assms by (simp_all add: onMessage_def returns_def Let_def)

lemma run_message_Cons:
  assumes "mounted b"
  shows "run p b (message_calls ((t, m) # evs)) =
           (run p (after (onMessage p b t m)) (message_calls evs))
             \<lparr> effects := effects (onMessage p b t m)
                            @ effects (run p (after (onMessage p b t m)) (message_calls evs)) \<rparr>"
  using onMessage_mounted(1)[OF assms, of p t m] by (simp add: message_calls_def Let_def)

lemma run_messages:
  "mounted b \<Longrightarrow>
   raised (run p b (message_calls evs)) = None \<and>
   mounted (after (run p b (message_calls evs))) \<and>
   messages (state (after (run p b (message_calls evs)))) =
     messages (state b) @ map (parsed_entry p) evs \<and>
   errors (state (after (run p b (message_calls evs)))) = errors (state b) \<and>
   lastPostAt (state (after (run p b (message_calls evs)))) = lastPostAt (state b) \<and>
   filter is_callback (effects (run p b (message_calls evs))) =
     (if prop_onMessage p then map (\<lambda>(t, m). OnMessageCb (parse p (ev_data m))) evs else [])"
proof (induction evs arbitrary: b)
  case Nil
  then show ?case by (simp add: message_calls_def returns_def)
next
  case (Cons a evs)
  obtain t m where a: "a = (t, m)" by (cases a)
  note f = onMessage_mounted[OF Cons.prems, of p t m]
  from Cons.IH[OF f(2)] show ?case
    unfolding a run_message_Cons[OF Cons.prems] using f by (simp add: parsed_entry_def)
qed

lemma run_messages_last:
  "mounted b \<Longrightarrow> evs \<noteq> [] \<Longrightarrow>
   data (state (after (run p b (message_calls evs)))) = parse p (ev_data (snd (last evs))) \<and>
   error (state (after (run p b (message_calls evs)))) = JUndefined \<and>
   updatedAt (state (after (run p b (message_calls evs)))) = Some (fst (last evs))"
proof (induction evs arbitrary: b)
  case Nil
  then show ?case by simp
next
  case (Cons a evs)
  obtain t m where a: "a = (t, m)" by (cases a)
  note f = onMessage_mounted[OF Cons.prems(1), of p t m]
  show ?case
  proof (cases "evs = []")
    case True
    then show ?thesis
      unfolding a run_message_Cons[OF Cons.prems(1)] using f
      by (simp add: message_calls_def returns_def)
  next
    case False
    from Cons.IH[OF f(2) False] show ?thesis
      unfolding a run_message_Cons[OF Cons.prems(1)] using False by simp
  qed
qed

text \<open>
  C1. Let \<open>N\<close> message events be delivered, one after the other, to a component that is
  mounted (attached and not torn down). Nothing is raised. \<^verbatim>\<open>messages\<close> grows by
  one entry per event, in delivery order, each entry holding the parsed payload and the
  time of its delivery, so that a component that had received nothing holds exactly \<open>N\<close>
  entries. After the last event \<^verbatim>\<open>data\<close> is the parser's result on the last payload
  (the payload itself when there is no parser), \<^verbatim>\<open>error\<close> is cleared and
  \<^verbatim>\<open>updatedAt\<close> is the time of that event. The \<^verbatim>\<open>onMessage\<close> prop, when supplied, is
  called once per event with the parsed payload, in order; for each single event the
  call comes after the state has been committed.
\<close>

theorem onMessage_sequence:
  assumes "mounted b"
  shows "raised (run p b (message_calls evs)) = None
     \<and> messages (state (after (run p b (message_calls evs)))) =
         messages (state b) @ map (parsed_entry p) evs
     \<and> (messages (state b) = [] \<longrightarrow>
          length (messages (state (after (run p b (message_calls evs))))) = length evs)
     \<and> (evs \<noteq> [] \<longrightarrow>
          data (state (after (run p b (message_calls evs)))) =
            parse p (ev_data (snd (last evs)))
        \<and> error (state (after (run p b (message_calls evs)))) = JUndefined
        \<and> updatedAt (state (after (run p b (message_calls evs)))) = Some (fst (last evs)))
     \<and> (prop_parser p = None \<longrightarrow> parse p = (\<lambda>raw. raw))
     \<and> (\<forall>f. prop_parser p = Some f \<longrightarrow> parse p = f)
     \<and> filter is_callback (effects (run p b (message_calls evs))) =
         (if prop_onMessage p
          then map (\<lambda>(t, m). OnMessageCb (parse p (ev_data m))) evs else [])
     \<and> (\<forall>now m. effects (onMessage p b now m) =
          SetState (state (after (onMessage p b now m)))
          # (if prop_onMessage p then [OnMessageCb (parse p (ev_data m))] else []))"
proof -
  note seq = run_messages[OF assms, of p evs]
  have len: "messages (state b) = [] \<longrightarrow>
      length (messages (state (after (run p b (message_calls evs))))) = length evs"
    using seq by simp
  have lst: "evs \<noteq> [] \<longrightarrow>
          data (state (after (run p b (message_calls evs)))) =
            parse p (ev_data (snd (last evs)))
        \<and> error (state (after (run p b (message_calls evs)))) = JUndefined
        \<and> updatedAt (state (after (run p b (message_calls evs)))) = Some (fst (last evs))"
    using run_messages_last[OF assms, of evs p] by blast
  have par: "(prop_parser p = None \<longrightarrow> parse p = (\<lambda>raw. raw))
      \<and> (\<forall>f. prop_parser p = Some f \<longrightarrow> parse p = f)"
    by (auto simp: parse_def fun_eq_iff)
  have one: "\<forall>now m. effects (onMessage p b now m) =
          SetState (state (after (onMessage p b now m)))
          # (if prop_onMessage p then [OnMessageCb (parse p (ev_data m))] else [])"
    using onMessage_mounted(11)[OF assms] by blast
  from seq len lst par one show ?thesis by blast
qed

theorem onMessage_sequence_witness:
  "mounted (after (componentDidMount url_props constructor))
   \<and> messages (state (after (run url_props (after (componentDidMount url_props constructor))
        (message_calls foo_bar_baz)))) =
       [MessageEntry (JStr ''foo'') 1, MessageEntry (JStr ''bar'') 2,
        MessageEntry (JStr ''baz'') 3]
   \<and> data (state (after (run url_props (after (componentDidMount url_props constructor))
        (message_calls foo_bar_baz)))) = JStr ''baz''
   \<and> updatedAt (state (after (run url_props (after (componentDidMount url_props constructor))
        (message_calls foo_bar_baz)))) = Some 3
   \<and> filter is_callback (effects (run url_props
        (after (componentDidMount url_props constructor)) (message_calls foo_bar_baz))) =
       [OnMessageCb (JStr ''foo''), OnMessageCb (JStr ''bar''), OnMessageCb (JStr ''baz'')]
   \<and> mounted received_baz
   \<and> data (state (after (run codec_props received_baz (message_calls foo_bar_baz)))) =
       JObj [(''payload'', JStr ''baz'')]
   \<and> length (messages (state (after (run codec_props received_baz
        (message_calls foo_bar_baz))))) = 4"
proof -
  have m: "mounted (after (componentDidMount url_props constructor))" "mounted received_baz"
    by (simp_all add: mount_url received_baz_def)
  have e: "messages (state (after (componentDidMount url_props constructor))) = []"
      "messages (state received_baz) = [MessageEntry (JStr ''baz'') 3]"
    by (simp_all add: mount_url getInitialState_def received_baz_def received_state_def)
  have ne: "foo_bar_baz \<noteq> []" by (simp add: foo_bar_baz_def)
  have p: "prop_parser url_props = None" "prop_onMessage url_props"
      "prop_parser codec_props = Some wrap"
    by (simp_all add: url_props_def codec_props_def no_props_def)
  note plain = onMessage_sequence[OF m(1), of url_props foo_bar_baz]
  note codec = onMessage_sequence[OF m(2), of codec_props foo_bar_baz]
  from plain p(1) have id: "parse url_props = (\<lambda>raw. raw)" by blast
  from codec p(3) have wr: "parse codec_props = wrap" by blast
  have l: "last foo_bar_baz = (3, MessageEvent (JStr ''baz''))" "length foo_bar_baz = 3"
    by (simp_all add: foo_bar_baz_def)
  have mp: "map (parsed_entry url_props) foo_bar_baz =
       [MessageEntry (JStr ''foo'') 1, MessageEntry (JStr ''bar'') 2,
        MessageEntry (JStr ''baz'') 3]"
    by (simp add: foo_bar_baz_def parsed_entry_def id)
  have cb: "map (\<lambda>(t, m). OnMessageCb (parse url_props (ev_data m))) foo_bar_baz =
       [OnMessageCb (JStr ''foo''), OnMessageCb (JStr ''bar''), OnMessageCb (JStr ''baz'')]"
    by (simp add: foo_bar_baz_def id)
  from plain have a: "messages (state (after (run url_props
        (after (componentDidMount url_props constructor)) (message_calls foo_bar_baz)))) =
       [MessageEntry (JStr ''foo'') 1, MessageEntry (JStr ''bar'') 2,
        MessageEntry (JStr ''baz'') 3]"
    by (simp add: e(1) mp)
  from plain ne have b: "data (state (after (run url_props
        (after (componentDidMount url_props constructor)) (message_calls foo_bar_baz)))) =
        JStr ''baz''"
      "updatedAt (state (after (run url_props (after (componentDidMount url_props constructor))
        (message_calls foo_bar_baz)))) = Some 3"
    by (simp_all add: l(1) id)
  from plain have c: "filter is_callback (effects (run url_props
        (after (componentDidMount url_props constructor)) (message_calls foo_bar_baz))) =
       [OnMessageCb (JStr ''foo''), OnMessageCb (JStr ''bar''), OnMessageCb (JStr ''baz'')]"
    by (simp add: p(2) cb)
  from codec ne have d: "data (state (after (run codec_props received_baz
        (message_calls foo_bar_baz)))) = JObj [(''payload'', JStr ''baz'')]"
    by (simp add: l(1) wr wrap_def)
  from codec have f: "length (messages (state (after (run codec_props received_baz
        (message_calls foo_bar_baz))))) = 4"
    by (simp add: e(2) l(2))
  from m a b c d f show ?thesis by simp
qed

section \<open>Inbound errors\<close>

lemma onError_mounted:
  assumes "mounted b"
  shows "raised (onError p b now ev) = None"
    and "mounted (after (onError p b now ev))"
    and "errors (state (after (onError p b now ev))) =
           errors (state b) @ [ErrorEntry (ev_error ev) now]"
    and "error (state (after (onError p b now ev))) = ev_error ev"
    and "updatedAt (state (after (onError p b now ev))) = Some now"
    and "data (state (after (onError p b now ev))) = data (state b)"
    and "messages (state (after (onError p b now ev))) = messages (state b)"
    and "lastPostAt (state (after (onError p b now ev))) = lastPostAt (state b)"
    and "effects (onError p b now ev) =
           SetState (state (after (onError p b now ev)))
           # (if prop_onError p then [OnErrorCb (ev_error ev)] else [])"
  using assms by (simp_all add: onError_def returns_def Let_def)

lemma run_error_Cons:
  assumes "mounted b"
  shows "run p b (error_calls ((t, ev) # evs)) =
           (run p (after (onError p b t ev)) (error_calls evs))
             \<lparr> effects := effects (onError p b t ev)
                            @ effects (run p (after (onError p b t ev)) (error_calls evs)) \<rparr>"
  using onError_mounted(1)[OF assms, of p t ev] by (simp add: error_calls_def Let_def)

lemma run_errors:
  "mounted b \<Longrightarrow>
   raised (run p b (error_calls evs)) = None \<and>
   errors (state (after (run p b (error_calls evs)))) =
     errors (state b) @ map error_entry_of evs \<and>
   data (state (after (run p b (error_calls evs)))) = data (state b) \<and>
   messages (state (after (run p b (error_calls evs)))) = messages (state b)"
proof (induction evs arbitrary: b)
  case Nil
  then show ?case by (simp add: error_calls_def returns_def)
next
  case (Cons a evs)
  obtain t ev where a: "a = (t, ev)" by (cases a)
  note f = onError_mounted[OF Cons.prems, of p t ev]
  from Cons.IH[OF f(2)] show ?case
    unfolding a run_error_Cons[OF Cons.prems] using f by (simp add: error_entry_of_def)
qed

text \<open>
  C3. An error event delivered to a mounted component raises nothing, appends the entry
  (error, now) to \<^verbatim>\<open>errors\<close>, sets \<^verbatim>\<open>error\<close> to the event's error and \<^verbatim>\<open>updatedAt\<close>
  to now, and leaves \<^verbatim>\<open>data\<close> and \<^verbatim>\<open>messages\<close> as they were. The state is committed
  first; the \<^verbatim>\<open>onError\<close> prop, when supplied, is called with the error after that. The
  same holds along any sequence of error events: \<^verbatim>\<open>errors\<close> grows in delivery order and
  \<^verbatim>\<open>data\<close> and \<^verbatim>\<open>messages\<close> never change.
\<close>

theorem onError_frame:
  assumes "mounted b"
  shows "raised (onError p b now ev) = None
     \<and> errors (state (after (onError p b now ev))) =
         errors (state b) @ [ErrorEntry (ev_error ev) now]
     \<and> error (state (after (onError p b now ev))) = ev_error ev
     \<and> updatedAt (state (after (onError p b now ev))) = Some now
     \<and> data (state (after (onError p b now ev))) = data (state b)
     \<and> messages (state (after (onError p b now ev))) = messages (state b)
     \<and> effects (onError p b now ev) =
         SetState (state (after (onError p b now ev)))
         # (if prop_onError p then [OnErrorCb (ev_error ev)] else [])
     \<and> errors (state (after (run p b (error_calls evs)))) =
         errors (state b) @ map error_entry_of evs
     \<and> data (state (after (run p b (error_calls evs)))) = data (state b)
     \<and> messages (state (after (run p b (error_calls evs)))) = messages (state b)"
  using onError_mounted[OF assms, of p now ev] run_errors[OF assms, of p evs] by simp

theorem onError_frame_witness:
  "mounted received_baz
   \<and> data (state (after (onError url_props received_baz 4 (ErrorEvent (JStr ''boom''))))) =
       JStr ''baz''
   \<and> error (state (after (onError url_props received_baz 4 (ErrorEvent (JStr ''boom''))))) =
       JStr ''boom''
   \<and> errors (state (after (onError url_props received_baz 4 (ErrorEvent (JStr ''boom''))))) =
       [ErrorEntry (JStr ''boom'') 4]
   \<and> messages (state (after (onError url_props received_baz 4 (ErrorEvent (JStr ''boom''))))) =
       [MessageEntry (JStr ''baz'') 3]
   \<and> effects (onError url_props received_baz 4 (ErrorEvent (JStr ''boom''))) =
       [SetState (state (after (onError url_props received_baz 4 (ErrorEvent (JStr ''boom''))))),
        OnErrorCb (JStr ''boom'')]"
proof -
  have m: "mounted received_baz" by (simp add: received_baz_def)
  have c: "prop_onError url_props" by (simp add: url_props_def no_props_def)
  have b: "data (state received_baz) = JStr ''baz''" "errors (state received_baz) = []"
      "messages (state received_baz) = [MessageEntry (JStr ''baz'') 3]"
    by (simp_all add: received_baz_def received_state_def getInitialState_def)
  show ?thesis
    using onError_frame[OF m, of url_props 4 "ErrorEvent (JStr ''boom'')" "[]"] m c b
    by simp
qed

section \<open>Events after unmount\<close>

lemma unmount_fields:
  "\<not> mounted (after (componentWillUnmount p b))"
  "worker (after (componentWillUnmount p b)) = worker b"
  "messageChannel (after (componentWillUnmount p b)) = messageChannel b"
  "state (after (componentWillUnmount p b)) = state b"
  by (simp_all add: componentWillUnmount_def Let_def returns_def throws_def split: option.splits)

lemma unmounted_events:
  "\<not> mounted b \<Longrightarrow> \<forall>c\<in>set cs. is_event c \<Longrightarrow> run p b cs = returns b []"
proof (induction cs)
  case Nil
  then show ?case by simp
next
  case (Cons c cs)
  from Cons.prems have ev: "is_event c" by simp
  have st: "step p b c = returns b []"
    using ev Cons.prems(1) by (cases c) (simp_all add: onMessage_def onError_def)
  from Cons show ?case by (simp add: st returns_def Let_def)
qed

text \<open>
  C5. Once the component has been unmounted, whatever message and error events are still
  delivered change nothing: the instance, and with it the whole state (\<^verbatim>\<open>messages\<close>,
  \<^verbatim>\<open>errors\<close>, \<^verbatim>\<open>data\<close>, \<^verbatim>\<open>error\<close>, \<^verbatim>\<open>updatedAt\<close>), is the one unmount left, no callback
  is called and no other effect happens, and nothing is raised.
\<close>

theorem late_events_ignored:
  assumes "\<forall>c\<in>set cs. is_event c"
  shows "after (run p (after (componentWillUnmount p b)) cs) = after (componentWillUnmount p b)
     \<and> state (after (run p (after (componentWillUnmount p b)) cs)) = state b
     \<and> effects (run p (after (componentWillUnmount p b)) cs) = []
     \<and> raised (run p (after (componentWillUnmount p b)) cs) = None"
  using unmounted_events[OF unmount_fields(1) assms, where p = p and p1 = p and b1 = b]
    unmount_fields(4)[of p b]
  by (simp add: returns_def)

theorem late_events_ignored_witness:
  "list_all is_event late_events
   \<and> state (after (run url_props
        (after (componentWillUnmount url_props (after (componentDidMount url_props constructor))))
        late_events)) = getInitialState
   \<and> effects (run url_props
        (after (componentWillUnmount url_props (after (componentDidMount url_props constructor))))
        late_events) = []
   \<and> raised (run url_props
        (after (componentWillUnmount url_props (after (componentDidMount url_props constructor))))
        late_events) = None"
proof -
  have ev: "\<forall>c\<in>set late_events. is_event c"
    by (simp add: late_events_def)
  have st: "state (after (componentDidMount url_props constructor)) = getInitialState"
    by (simp add: mount_url)
  show ?thesis
    using late_events_ignored[OF ev, of url_props "after (componentDidMount url_props constructor)"]
      ev st
    by (simp add: unmount_fields(4) list_all_iff)
qed

section \<open>Sending\<close>

lemma postMessage_dispatches:
  assumes "worker b = Some h" and "mounted b" and "has_postMessage h" and "\<not> inactive h"
  shows "postMessage p b now x =
           returns (b\<lparr> state := (state b)\<lparr> lastPostAt := Some now \<rparr> \<rparr>)
             [SetState ((state b)\<lparr> lastPostAt := Some now \<rparr>),
              PostMessageCall h (serialize p x)
                (if messageChannel b \<noteq> None then Some [Port2] else None)]"
  using assms by (auto simp: postMessage_def inactive_def Let_def)

lemma postMessage_unmounted:
  assumes "worker b = Some h" and "\<not> mounted b"
  shows "after (postMessage p b now x) = b"
    and "effects (postMessage p b now x) = []"
    and "has_postMessage h \<Longrightarrow> raised (postMessage p b now x) = None"
    and "\<not> has_postMessage h \<Longrightarrow>
           raised (postMessage p b now x) = Some (Error ''Worker not initialized'')"
  using assms by (simp_all add: postMessage_def returns_def throws_def)

text \<open>
  C2, as the claim is worded, fails: a Service Worker that is still installing is an
  attached handle, and a send to it returns without touching \<^verbatim>\<open>lastPostAt\<close> and without
  dispatching anything.
\<close>

theorem send_inactive_counterexample:
  "worker (after (componentDidMount (sw_props ''installing'') constructor)) =
     Some (serviceWorker ''installing'')
   \<and> raised (postMessage (sw_props ''installing'')
        (after (componentDidMount (sw_props ''installing'') constructor)) 7 (JStr ''hello'')) =
       None
   \<and> lastPostAt (state (after (postMessage (sw_props ''installing'')
        (after (componentDidMount (sw_props ''installing'') constructor)) 7 (JStr ''hello''))))
       \<noteq> Some 7
   \<and> effects (postMessage (sw_props ''installing'')
        (after (componentDidMount (sw_props ''installing'') constructor)) 7 (JStr ''hello'')) =
       []"
  by (simp add: mount_sw postMessage_def serviceWorker_def getInitialState_def returns_def)

text \<open>
  C2, amended. With no handle attached, send raises the error "Worker not initialized"
  at once: the instance, and so the state and \<^verbatim>\<open>lastPostAt\<close>, is unchanged and nothing
  has happened. With a handle attached and the component still mounted, where the handle
  has a \<^verbatim>\<open>postMessage\<close> and its \<^verbatim>\<open>state\<close> is falsy (absent, as a rule) or "activated",
  send raises nothing, sets \<^verbatim>\<open>lastPostAt\<close> to now and changes nothing else, and then
  dispatches the serialized payload to the handle (with the channel's second port when a
  message channel was set up); the serialized payload is the serializer's result, or the
  payload itself when no serializer is supplied. Send returns right after the dispatch;
  it waits for nothing.
\<close>

theorem send_contract:
  "(worker b = None \<longrightarrow>
      raised (postMessage p b now x) = Some (Error ''Worker not initialized'')
    \<and> after (postMessage p b now x) = b
    \<and> effects (postMessage p b now x) = [])
   \<and> (\<forall>h. worker b = Some h \<and> mounted b \<and> has_postMessage h \<and> \<not> inactive h \<longrightarrow>
        raised (postMessage p b now x) = None
      \<and> after (postMessage p b now x) = b\<lparr> state := (state b)\<lparr> lastPostAt := Some now \<rparr> \<rparr>
      \<and> effects (postMessage p b now x) =
          [SetState ((state b)\<lparr> lastPostAt := Some now \<rparr>),
           PostMessageCall h (serialize p x)
             (if messageChannel b \<noteq> None then Some [Port2] else None)])
   \<and> (prop_serializer p = None \<longrightarrow> serialize p x = x)
   \<and> (\<forall>f. prop_serializer p = Some f \<longrightarrow> serialize p x = f x)"
  by (auto simp: postMessage_def throws_def returns_def inactive_def serialize_def Let_def)

theorem send_contract_witness:
  "worker constructor = None
   \<and> raised (postMessage url_props constructor 7 (JStr ''hello'')) =
       Some (Error ''Worker not initialized'')
   \<and> lastPostAt (state (after (postMessage url_props constructor 7 (JStr ''hello'')))) = None
   \<and> worker (after (componentDidMount url_props constructor)) =
       Some (window_Worker ''/worker.js'' JUndefined)
   \<and> mounted (after (componentDidMount url_props constructor))
   \<and> has_postMessage (window_Worker ''/worker.js'' JUndefined)
   \<and> \<not> inactive (window_Worker ''/worker.js'' JUndefined)
   \<and> lastPostAt (state (after (postMessage url_props
        (after (componentDidMount url_props constructor)) 7 (JStr ''hello'')))) = Some 7
   \<and> effects (postMessage url_props
        (after (componentDidMount url_props constructor)) 7 (JStr ''hello'')) =
       [SetState (getInitialState\<lparr> lastPostAt := Some 7 \<rparr>),
        PostMessageCall (window_Worker ''/worker.js'' JUndefined) (JStr ''hello'') None]
   \<and> worker received_baz = Some customWorker \<and> mounted received_baz
   \<and> has_postMessage customWorker \<and> \<not> inactive customWorker
   \<and> effects (postMessage codec_props received_baz 8 (JStr ''hello'')) =
       [SetState (received_state\<lparr> lastPostAt := Some 8 \<rparr>),
        PostMessageCall customWorker (JObj [(''payload'', JStr ''hello'')]) None]"
proof -
  have w0: "worker constructor = None" "lastPostAt (state constructor) = None"
    by (simp_all add: constructor_def getInitialState_def)
  have w1: "worker (after (componentDidMount url_props constructor)) =
      Some (window_Worker ''/worker.js'' JUndefined)"
      "mounted (after (componentDidMount url_props constructor))"
    by (simp_all add: mount_url)
  have w2: "worker received_baz = Some customWorker" "mounted received_baz"
      "state received_baz = received_state" "messageChannel received_baz = None"
    by (simp_all add: received_baz_def)
  have h: "has_postMessage (window_Worker ''/worker.js'' JUndefined)"
      "\<not> inactive (window_Worker ''/worker.js'' JUndefined)"
      "has_postMessage customWorker" "\<not> inactive customWorker"
    by (simp_all add: window_Worker_def customWorker_def inactive_def)
  have s: "prop_serializer url_props = None" "prop_serializer codec_props = Some wrap"
    by (simp_all add: url_props_def codec_props_def no_props_def)
  have c: "state (after (componentDidMount url_props constructor)) = getInitialState"
      "messageChannel (after (componentDidMount url_props constructor)) = None"
    by (simp_all add: mount_url)
  note before = send_contract[of constructor url_props 7 "JStr ''hello''"]
  note plain = send_contract[of "after (componentDidMount url_props constructor)" url_props 7
        "JStr ''hello''"]
  note codec = send_contract[of received_baz codec_props 8 "JStr ''hello''"]
  from before w0 have a:
    "raised (postMessage url_props constructor 7 (JStr ''hello'')) =
       Some (Error ''Worker not initialized'')"
    "lastPostAt (state (after (postMessage url_props constructor 7 (JStr ''hello'')))) = None"
    by simp_all
  from plain w1 h(1) h(2) s(1) have b:
    "lastPostAt (state (after (postMessage url_props
        (after (componentDidMount url_props constructor)) 7 (JStr ''hello'')))) = Some 7"
    "effects (postMessage url_props
        (after (componentDidMount url_props constructor)) 7 (JStr ''hello'')) =
       [SetState (getInitialState\<lparr> lastPostAt := Some 7 \<rparr>),
        PostMessageCall (window_Worker ''/worker.js'' JUndefined) (JStr ''hello'') None]"
    by (simp_all add: c)
  from codec w2(1) w2(2) h(3) h(4) s(2) have d:
    "effects (postMessage codec_props received_baz 8 (JStr ''hello'')) =
       [SetState (received_state\<lparr> lastPostAt := Some 8 \<rparr>),
        PostMessageCall customWorker (JObj [(''payload'', JStr ''hello'')]) None]"
    by (simp add: w2(3) w2(4) wrap_def)
  from w0(1) w1 w2(1) w2(2) h a b d show ?thesis by simp
qed

text \<open>
  C9, as the claim is worded, fails in two ways. An attached handle whose \<^verbatim>\<open>state\<close> is
  "installing" but which has no \<^verbatim>\<open>postMessage\<close> makes send raise "Worker not
  initialized": that check comes before the look at \<^verbatim>\<open>state\<close>. And an attached handle
  whose \<^verbatim>\<open>state\<close> is present, is not "activated", but is falsy (the empty string) does
  not stop send: \<^verbatim>\<open>lastPostAt\<close> is set and the payload is dispatched.
\<close>

theorem send_state_counterexample:
  "worker (after (componentDidMount stub_props constructor)) = Some installingStub
   \<and> hstate installingStub = JStr ''installing''
   \<and> raised (postMessage stub_props (after (componentDidMount stub_props constructor)) 9
        (JStr ''hello'')) = Some (Error ''Worker not initialized'')
   \<and> worker (after (componentDidMount blank_props constructor)) = Some blankStateWorker
   \<and> hstate blankStateWorker = JStr []
   \<and> lastPostAt (state (after (postMessage blank_props
        (after (componentDidMount blank_props constructor)) 9 (JStr ''hello'')))) = Some 9
   \<and> effects (postMessage blank_props
        (after (componentDidMount blank_props constructor)) 9 (JStr ''hello'')) =
       [SetState (getInitialState\<lparr> lastPostAt := Some 9 \<rparr>),
        PostMessageCall blankStateWorker (JStr ''hello'') None]"
proof -
  have s: "serialize blank_props (JStr ''hello'') = JStr ''hello''"
    by (simp add: serialize_def blank_props_def no_props_def)
  show ?thesis
    by (simp add: mount_stub mount_blank postMessage_def installingStub_def
        blankStateWorker_def throws_def returns_def s getInitialState_def Let_def)
qed

text \<open>
  C9, amended. While the attached handle has a \<^verbatim>\<open>state\<close> that is truthy and is not
  "activated" (an inactive Service Worker, say), a send leaves the instance as it was, so
  \<^verbatim>\<open>lastPostAt\<close> is not updated, and has no effect: nothing is dispatched to the handle.
  If the handle has a \<^verbatim>\<open>postMessage\<close>, send returns silently, with no error raised; if it
  has none, send raises "Worker not initialized".
\<close>

theorem send_inactive_ignored:
  assumes "worker b = Some h" and "truthy (hstate h)" and "hstate h \<noteq> JStr ''activated''"
  shows "after (postMessage p b now x) = b
     \<and> lastPostAt (state (after (postMessage p b now x))) = lastPostAt (state b)
     \<and> effects (postMessage p b now x) = []
     \<and> (has_postMessage h \<longrightarrow> raised (postMessage p b now x) = None)
     \<and> (\<not> has_postMessage h \<longrightarrow>
          raised (postMessage p b now x) = Some (Error ''Worker not initialized''))"
  using assms by (simp add: postMessage_def throws_def returns_def)

theorem send_inactive_ignored_witness:
  "worker (after (componentDidMount (sw_props ''redundant'') constructor)) =
     Some (serviceWorker ''redundant'')
   \<and> truthy (hstate (serviceWorker ''redundant''))
   \<and> hstate (serviceWorker ''redundant'') \<noteq> JStr ''activated''
   \<and> has_postMessage (serviceWorker ''redundant'')
   \<and> raised (postMessage (sw_props ''redundant'')
        (after (componentDidMount (sw_props ''redundant'') constructor)) 9 (JStr ''hello'')) =
       None
   \<and> effects (postMessage (sw_props ''redundant'')
        (after (componentDidMount (sw_props ''redundant'') constructor)) 9 (JStr ''hello'')) =
       []
   \<and> lastPostAt (state (after (postMessage (sw_props ''redundant'')
        (after (componentDidMount (sw_props ''redundant'') constructor)) 9 (JStr ''hello'')))) =
       None
   \<and> worker (after (componentDidMount stub_props constructor)) = Some installingStub
   \<and> truthy (hstate installingStub) \<and> hstate installingStub \<noteq> JStr ''activated''
   \<and> \<not> has_postMessage installingStub
   \<and> raised (postMessage stub_props (after (componentDidMount stub_props constructor)) 9
        (JStr ''hello'')) = Some (Error ''Worker not initialized'')
   \<and> effects (postMessage stub_props (after (componentDidMount stub_props constructor)) 9
        (JStr ''hello'')) = []"
proof -
  have w: "worker (after (componentDidMount (sw_props ''redundant'') constructor)) =
      Some (serviceWorker ''redundant'')"
      "worker (after (componentDidMount stub_props constructor)) = Some installingStub"
    by (simp_all add: mount_sw mount_stub)
  have h: "truthy (hstate (serviceWorker ''redundant''))"
      "hstate (serviceWorker ''redundant'') \<noteq> JStr ''activated''"
      "has_postMessage (serviceWorker ''redundant'')"
    by (simp_all add: serviceWorker_def)
  have g: "truthy (hstate installingStub)" "hstate installingStub \<noteq> JStr ''activated''"
      "\<not> has_postMessage installingStub"
    by (simp_all add: installingStub_def)
  have l: "lastPostAt (state (after (componentDidMount (sw_props ''redundant'') constructor))) =
      None"
    by (simp add: mount_sw getInitialState_def)
  note sw = send_inactive_ignored[OF w(1) h(1) h(2), of "sw_props ''redundant''" 9
      "JStr ''hello''"]
  note stub = send_inactive_ignored[OF w(2) g(1) g(2), of stub_props 9 "JStr ''hello''"]
  from sw h(3) l have a:
    "raised (postMessage (sw_props ''redundant'')
        (after (componentDidMount (sw_props ''redundant'') constructor)) 9 (JStr ''hello'')) =
       None"
    "effects (postMessage (sw_props ''redundant'')
        (after (componentDidMount (sw_props ''redundant'') constructor)) 9 (JStr ''hello'')) =
       []"
    "lastPostAt (state (after (postMessage (sw_props ''redundant'')
        (after (componentDidMount (sw_props ''redundant'') constructor)) 9 (JStr ''hello'')))) =
       None"
    by simp_all
  from stub g(3) have b:
    "raised (postMessage stub_props (after (componentDidMount stub_props constructor)) 9
        (JStr ''hello'')) = Some (Error ''Worker not initialized'')"
    "effects (postMessage stub_props (after (componentDidMount stub_props constructor)) 9
        (JStr ''hello'')) = []"
    by simp_all
  from w h g a b show ?thesis by simp
qed

text \<open>
  C10, as the claim is worded, fails: unmounting does disable send. A caller-supplied
  worker is still held after unmount and is not terminated, yet a send then commits
  nothing and dispatches nothing, where the same send before unmount sets
  \<^verbatim>\<open>lastPostAt\<close> and dispatches.
\<close>

theorem send_after_unmount_counterexample:
  "worker (after (componentWillUnmount custom_props
      (after (componentDidMount custom_props constructor)))) = Some customWorker
   \<and> effects (componentWillUnmount custom_props
        (after (componentDidMount custom_props constructor))) = []
   \<and> effects (postMessage custom_props (after (componentWillUnmount custom_props
        (after (componentDidMount custom_props constructor)))) 9 (JStr ''late'')) = []
   \<and> lastPostAt (state (after (postMessage custom_props (after (componentWillUnmount custom_props
        (after (componentDidMount custom_props constructor)))) 9 (JStr ''late''))))
       \<noteq> Some 9
   \<and> effects (postMessage custom_props (after (componentDidMount custom_props constructor)) 9
        (JStr ''late'')) =
       [SetState (getInitialState\<lparr> lastPostAt := Some 9 \<rparr>),
        PostMessageCall customWorker (JStr ''late'') None]"
proof -
  have s: "serialize custom_props (JStr ''late'') = JStr ''late''"
      "prop_worker custom_props = Some customWorker"
    by (simp_all add: serialize_def custom_props_def no_props_def)
  show ?thesis
    by (simp add: mount_custom componentWillUnmount_def postMessage_def customWorker_def
        returns_def s getInitialState_def Let_def)
qed

text \<open>
  C10, amended. \<^verbatim>\<open>postMessage\<close> itself never reads the teardown flag, but after unmount
  its state update and the callback that dispatches are dropped. So for every send after
  unmount with a handle still held, the instance and its state, \<^verbatim>\<open>lastPostAt\<close> included,
  stay as unmount left them and nothing is dispatched to the handle. Only the check that
  comes before the state update is still live: send raises nothing when the handle has a
  \<^verbatim>\<open>postMessage\<close>, and raises "Worker not initialized" when it has none.
\<close>

theorem send_after_unmount:
  assumes "worker b = Some h"
  shows "\<not> mounted (after (componentWillUnmount p b))
     \<and> worker (after (componentWillUnmount p b)) = Some h
     \<and> after (postMessage p (after (componentWillUnmount p b)) now x) =
         after (componentWillUnmount p b)
     \<and> state (after (postMessage p (after (componentWillUnmount p b)) now x)) = state b
     \<and> lastPostAt (state (after (postMessage p (after (componentWillUnmount p b)) now x))) =
         lastPostAt (state b)
     \<and> effects (postMessage p (after (componentWillUnmount p b)) now x) = []
     \<and> (has_postMessage h \<longrightarrow>
          raised (postMessage p (after (componentWillUnmount p b)) now x) = None)
     \<and> (\<not> has_postMessage h \<longrightarrow>
          raised (postMessage p (after (componentWillUnmount p b)) now x) =
            Some (Error ''Worker not initialized''))"
proof -
  note u = unmount_fields[of p b]
  have w: "worker (after (componentWillUnmount p b)) = Some h" using u(2) assms by simp
  note q = postMessage_unmounted[OF w u(1), of p now x]
  from u(1) w q u(4) show ?thesis by simp
qed

theorem send_after_unmount_witness:
  "worker (after (componentDidMount url_props constructor)) =
     Some (window_Worker ''/worker.js'' JUndefined)
   \<and> has_postMessage (window_Worker ''/worker.js'' JUndefined)
   \<and> \<not> mounted (after (componentWillUnmount url_props
          (after (componentDidMount url_props constructor))))
   \<and> raised (postMessage url_props (after (componentWillUnmount url_props
          (after (componentDidMount url_props constructor)))) 9 (JStr ''late'')) = None
   \<and> effects (postMessage url_props (after (componentWillUnmount url_props
          (after (componentDidMount url_props constructor)))) 9 (JStr ''late'')) = []
   \<and> lastPostAt (state (after (postMessage url_props (after (componentWillUnmount url_props
          (after (componentDidMount url_props constructor)))) 9 (JStr ''late'')))) = None
   \<and> worker (after (componentDidMount stub_props constructor)) = Some installingStub
   \<and> \<not> has_postMessage installingStub
   \<and> raised (postMessage stub_props (after (componentWillUnmount stub_props
          (after (componentDidMount stub_props constructor)))) 9 (JStr ''late'')) =
       Some (Error ''Worker not initialized'')"
proof -
  have w: "worker (after (componentDidMount url_props constructor)) =
      Some (window_Worker ''/worker.js'' JUndefined)"
      "worker (after (componentDidMount stub_props constructor)) = Some installingStub"
    by (simp_all add: mount_url mount_stub)
  have h: "has_postMessage (window_Worker ''/worker.js'' JUndefined)"
      "\<not> has_postMessage installingStub"
    by (simp_all add: window_Worker_def installingStub_def)
  have l: "lastPostAt (state (after (componentDidMount url_props constructor))) = None"
    by (simp add: mount_url getInitialState_def)
  note owned = send_after_unmount[OF w(1), of url_props 9 "JStr ''late''"]
  note stub = send_after_unmount[OF w(2), of stub_props 9 "JStr ''late''"]
  from owned h(1) l have a:
    "\<not> mounted (after (componentWillUnmount url_props
          (after (componentDidMount url_props constructor))))"
    "raised (postMessage url_props (after (componentWillUnmount url_props
          (after (componentDidMount url_props constructor)))) 9 (JStr ''late'')) = None"
    "effects (postMessage url_props (after (componentWillUnmount url_props
          (after (componentDidMount url_props constructor)))) 9 (JStr ''late'')) = []"
    "lastPostAt (state (after (postMessage url_props (after (componentWillUnmount url_props
          (after (componentDidMount url_props constructor)))) 9 (JStr ''late'')))) = None"
    by (simp_all add: unmount_fields(4))
  from stub h(2) have b:
    "raised (postMessage stub_props (after (componentWillUnmount stub_props
          (after (componentDidMount stub_props constructor)))) 9 (JStr ''late'')) =
       Some (Error ''Worker not initialized'')"
    by simp
  from w h a b show ?thesis by simp
qed

section \<open>Wiring at mount\<close>

lemma step_keeps_wiring:
  "c \<noteq> Mount \<Longrightarrow>
   worker (after (step p b c)) = worker b \<and>
   messageChannel (after (step p b c)) = messageChannel b"
  by (cases c)
    (simp_all add: unmount_fields onMessage_def onError_def postMessage_def returns_def
      throws_def Let_def split: option.splits)

lemma run_keeps_wiring:
  "Mount \<notin> set cs \<Longrightarrow>
   worker (after (run p b cs)) = worker b \<and>
   messageChannel (after (run p b cs)) = messageChannel b"
proof (induction cs arbitrary: b)
  case Nil
  then show ?case by (simp add: returns_def)
next
  case (Cons c cs)
  then have c: "c \<noteq> Mount" and cs: "Mount \<notin> set cs" by auto
  note s = step_keeps_wiring[OF c, where p = p and b = b]
  show ?case
  proof (cases "raised (step p b c)")
    case None
    then show ?thesis
      using Cons.IH[OF cs, where b = "after (step p b c)"] s by (simp add: Let_def)
  next
    case (Some e)
    then show ?thesis using s by (simp add: Let_def)
  qed
qed

lemma step_keeps_mounted:
  "c \<noteq> Mount \<Longrightarrow> c \<noteq> Unmount \<Longrightarrow> mounted (after (step p b c)) = mounted b"
  by (cases c)
    (simp_all add: onMessage_def onError_def postMessage_def returns_def throws_def Let_def
      split: option.splits)

lemma run_keeps_mounted:
  "Mount \<notin> set cs \<Longrightarrow> Unmount \<notin> set cs \<Longrightarrow> mounted (after (run p b cs)) = mounted b"
proof (induction cs arbitrary: b)
  case Nil
  then show ?case by (simp add: returns_def)
next
  case (Cons c cs)
  then have c: "c \<noteq> Mount" "c \<noteq> Unmount" and cs: "Mount \<notin> set cs" "Unmount \<notin> set cs"
    by auto
  note s = step_keeps_mounted[OF c, where p = p and b = b]
  show ?case
  proof (cases "raised (step p b c)")
    case None
    then show ?thesis
      using Cons.IH[OF cs, where b = "after (step p b c)"] s by (simp add: Let_def)
  next
    case (Some e)
    then show ?thesis using s by (simp add: Let_def)
  qed
qed

lemma mount_wiring:
  assumes "resolve_worker p = Inr (h, made)"
  shows "raised (componentDidMount p b) = None"
    and "worker (after (componentDidMount p b)) = Some h"
    and "mounted (after (componentDidMount p b))"
    and "has_onmessage h \<Longrightarrow> messageChannel (after (componentDidMount p b)) = messageChannel b"
    and "has_onmessage h \<Longrightarrow> effects (componentDidMount p b) =
           made @ [Bind (Worker_onmessage h) This_onMessage, Bind (Worker_onerror h) This_onError]"
    and "\<not> has_onmessage h \<Longrightarrow>
           messageChannel (after (componentDidMount p b)) = Some MessageChannel"
    and "\<not> has_onmessage h \<Longrightarrow> effects (componentDidMount p b) =
           made @ [NewMessageChannel, Bind Port1_onmessage This_onMessage,
                   Bind Port1_onmessageerror This_onError]"
  using assms by (simp_all add: componentDidMount_def returns_def)

text \<open>
  C7. Let mount resolve the handle \<open>h\<close> (\<open>made\<close> being the construction of a Worker, if
  any). When \<open>h\<close> has no \<^verbatim>\<open>onmessage\<close> slot, mount creates a message channel and binds
  the \<^verbatim>\<open>onmessage\<close> and \<^verbatim>\<open>onmessageerror\<close> slots of its first port to the component's
  handlers; it binds no slot of the handle. When \<open>h\<close> has the slot, mount binds the
  handle's \<^verbatim>\<open>onmessage\<close> and \<^verbatim>\<open>onerror\<close> and creates no channel. Whatever calls other
  than a mount follow, every dispatch that a later send makes goes to \<open>h\<close> with the
  serialized payload (the serializer's result, or the payload itself without a
  serializer), and carries the channel's second port exactly when the channel was
  created. As long as the component has not been unmounted, a handle that send dispatches
  to (one with a \<^verbatim>\<open>postMessage\<close>, and a \<^verbatim>\<open>state\<close> that is falsy or "activated") receives
  exactly one such dispatch per send.
\<close>

theorem message_channel_wiring:
  assumes "resolve_worker p = Inr (h, made)" and "Mount \<notin> set cs"
  shows "(\<not> has_onmessage h \<longrightarrow>
            effects (componentDidMount p constructor) =
              made @ [NewMessageChannel, Bind Port1_onmessage This_onMessage,
                      Bind Port1_onmessageerror This_onError]
          \<and> messageChannel (after (componentDidMount p constructor)) = Some MessageChannel)
     \<and> (has_onmessage h \<longrightarrow>
            effects (componentDidMount p constructor) =
              made @ [Bind (Worker_onmessage h) This_onMessage,
                      Bind (Worker_onerror h) This_onError]
          \<and> messageChannel (after (componentDidMount p constructor)) = None)
     \<and> (Unmount \<notin> set cs \<and> has_postMessage h \<and> \<not> inactive h \<longrightarrow>
          filter is_dispatch (effects (postMessage p
              (after (run p (after (componentDidMount p constructor)) cs)) now x)) =
            [PostMessageCall h (serialize p x)
               (if has_onmessage h then None else Some [Port2])])
     \<and> (\<forall>e \<in> set (effects (postMessage p
              (after (run p (after (componentDidMount p constructor)) cs)) now x)).
          is_dispatch e \<longrightarrow>
            e = PostMessageCall h (serialize p x)
                  (if has_onmessage h then None else Some [Port2]))
     \<and> (prop_serializer p = None \<longrightarrow> serialize p x = x)
     \<and> (\<forall>f. prop_serializer p = Some f \<longrightarrow> serialize p x = f x)"
proof -
  let ?start = "after (componentDidMount p constructor)"
  let ?cur = "after (run p ?start cs)"
  note m = mount_wiring[OF assms(1), of constructor]
  note k = run_keeps_wiring[OF assms(2), where p = p and b = ?start]
  have mc0: "messageChannel constructor = None" by (simp add: constructor_def)
  have w: "worker ?cur = Some h" using k m(2) by simp
  have ch: "messageChannel ?cur \<noteq> None \<longleftrightarrow> \<not> has_onmessage h"
    using k m(4) m(6) mc0 by (cases "has_onmessage h") simp_all
  have a: "\<not> has_onmessage h \<longrightarrow>
            effects (componentDidMount p constructor) =
              made @ [NewMessageChannel, Bind Port1_onmessage This_onMessage,
                      Bind Port1_onmessageerror This_onError]
          \<and> messageChannel ?start = Some MessageChannel"
    using m(6) m(7) by simp
  have b: "has_onmessage h \<longrightarrow>
            effects (componentDidMount p constructor) =
              made @ [Bind (Worker_onmessage h) This_onMessage,
                      Bind (Worker_onerror h) This_onError]
          \<and> messageChannel ?start = None"
    using m(4) m(5) mc0 by simp
  have c: "Unmount \<notin> set cs \<and> has_postMessage h \<and> \<not> inactive h \<longrightarrow>
          filter is_dispatch (effects (postMessage p ?cur now x)) =
            [PostMessageCall h (serialize p x)
               (if has_onmessage h then None else Some [Port2])]"
  proof (intro impI, elim conjE)
    assume nu: "Unmount \<notin> set cs" and hp: "has_postMessage h" and na: "\<not> inactive h"
    have live: "mounted ?cur"
      using run_keeps_mounted[OF assms(2) nu, where p = p and b = ?start] m(3) by simp
    show "filter is_dispatch (effects (postMessage p ?cur now x)) =
            [PostMessageCall h (serialize p x)
               (if has_onmessage h then None else Some [Port2])]"
      using postMessage_dispatches[OF w live hp na, of p now x] ch by (auto simp: returns_def)
  qed
  have d: "\<forall>e \<in> set (effects (postMessage p ?cur now x)).
          is_dispatch e \<longrightarrow>
            e = PostMessageCall h (serialize p x)
                  (if has_onmessage h then None else Some [Port2])"
    using w ch by (auto simp: postMessage_def returns_def throws_def Let_def)
  have e: "(prop_serializer p = None \<longrightarrow> serialize p x = x)
      \<and> (\<forall>f. prop_serializer p = Some f \<longrightarrow> serialize p x = f x)"
    by (auto simp: serialize_def)
  from a b c d e show ?thesis by blast
qed

theorem message_channel_wiring_witness:
  "resolve_worker (sw_props ''activated'') = Inr (serviceWorker ''activated'', [])
   \<and> Mount \<notin> set late_events \<and> Unmount \<notin> set late_events
   \<and> \<not> has_onmessage (serviceWorker ''activated'')
   \<and> has_postMessage (serviceWorker ''activated'') \<and> \<not> inactive (serviceWorker ''activated'')
   \<and> effects (componentDidMount (sw_props ''activated'') constructor) =
       [NewMessageChannel, Bind Port1_onmessage This_onMessage,
        Bind Port1_onmessageerror This_onError]
   \<and> filter is_dispatch (effects (postMessage (sw_props ''activated'')
        (after (run (sw_props ''activated'')
           (after (componentDidMount (sw_props ''activated'') constructor)) late_events))
        5 (JStr ''hello''))) =
       [PostMessageCall (serviceWorker ''activated'') (JStr ''hello'') (Some [Port2])]
   \<and> resolve_worker codec_props =
       Inr (window_Worker ''/worker.js'' JUndefined, [NewWorker ''/worker.js'' JUndefined])
   \<and> has_onmessage (window_Worker ''/worker.js'' JUndefined)
   \<and> has_postMessage (window_Worker ''/worker.js'' JUndefined)
   \<and> \<not> inactive (window_Worker ''/worker.js'' JUndefined)
   \<and> effects (componentDidMount codec_props constructor) =
       [NewWorker ''/worker.js'' JUndefined,
        Bind (Worker_onmessage (window_Worker ''/worker.js'' JUndefined)) This_onMessage,
        Bind (Worker_onerror (window_Worker ''/worker.js'' JUndefined)) This_onError]
   \<and> filter is_dispatch (effects (postMessage codec_props
        (after (run codec_props (after (componentDidMount codec_props constructor))
           late_events)) 5 (JStr ''hello''))) =
       [PostMessageCall (window_Worker ''/worker.js'' JUndefined)
          (JObj [(''payload'', JStr ''hello'')]) None]"
proof -
  have r1: "resolve_worker (sw_props ''activated'') = Inr (serviceWorker ''activated'', [])"
    by (simp add: resolve_worker_def worker_from_prop_def sw_props_def no_props_def
        serviceWorker_def)
  have r2: "resolve_worker codec_props =
      Inr (window_Worker ''/worker.js'' JUndefined, [NewWorker ''/worker.js'' JUndefined])"
    by (simp add: resolve_worker_def codec_props_def url_props_def no_props_def)
  have nm: "Mount \<notin> set late_events" and nu: "Unmount \<notin> set late_events"
    by (simp_all add: late_events_def)
  have h1: "\<not> has_onmessage (serviceWorker ''activated'')"
      "has_postMessage (serviceWorker ''activated'')"
      "\<not> inactive (serviceWorker ''activated'')"
    by (simp_all add: serviceWorker_def inactive_def)
  have h2: "has_onmessage (window_Worker ''/worker.js'' JUndefined)"
      "has_postMessage (window_Worker ''/worker.js'' JUndefined)"
      "\<not> inactive (window_Worker ''/worker.js'' JUndefined)"
    by (simp_all add: window_Worker_def inactive_def)
  have s: "prop_serializer (sw_props ''activated'') = None"
      "prop_serializer codec_props = Some wrap"
    by (simp_all add: sw_props_def codec_props_def no_props_def)
  note sw = message_channel_wiring[OF r1 nm, of 5 "JStr ''hello''"]
  note codec = message_channel_wiring[OF r2 nm, of 5 "JStr ''hello''"]
  from sw s(1) have s1: "serialize (sw_props ''activated'') (JStr ''hello'') = JStr ''hello''"
    by blast
  from codec s(2) have s2: "serialize codec_props (JStr ''hello'') = wrap (JStr ''hello'')"
    by blast
  from sw h1 nu have a:
    "effects (componentDidMount (sw_props ''activated'') constructor) =
       [NewMessageChannel, Bind Port1_onmessage This_onMessage,
        Bind Port1_onmessageerror This_onError]"
    "filter is_dispatch (effects (postMessage (sw_props ''activated'')
        (after (run (sw_props ''activated'')
           (after (componentDidMount (sw_props ''activated'') constructor)) late_events))
        5 (JStr ''hello''))) =
       [PostMessageCall (serviceWorker ''activated'') (serialize (sw_props ''activated'')
          (JStr ''hello'')) (Some [Port2])]"
    by simp_all
  from codec h2 nu have b:
    "effects (componentDidMount codec_props constructor) =
       [NewWorker ''/worker.js'' JUndefined,
        Bind (Worker_onmessage (window_Worker ''/worker.js'' JUndefined)) This_onMessage,
        Bind (Worker_onerror (window_Worker ''/worker.js'' JUndefined)) This_onError]"
    "filter is_dispatch (effects (postMessage codec_props
        (after (run codec_props (after (componentDidMount codec_props constructor))
           late_events)) 5 (JStr ''hello''))) =
       [PostMessageCall (window_Worker ''/worker.js'' JUndefined)
          (serialize codec_props (JStr ''hello'')) None]"
    by simp_all
  from r1 r2 nm nu h1 h2 a b show ?thesis by (simp add: s1 s2 wrap_def)
qed

section \<open>Ownership of the handle\<close>

text \<open>
  With only the URL supplied, the component constructs the Worker at mount and
  terminates it at unmount.
\<close>

lemma unmount_owned:
  assumes "prop_url p = Some u" and "u \<noteq> []" and "prop_worker p = None"
  shows "effects (componentDidMount p constructor) =
           [NewWorker u (prop_options p),
            Bind (Worker_onmessage (window_Worker u (prop_options p))) This_onMessage,
            Bind (Worker_onerror (window_Worker u (prop_options p))) This_onError]"
    and "effects (componentWillUnmount p (after (componentDidMount p constructor))) =
           [Terminate (window_Worker u (prop_options p))]"
proof -
  have r: "resolve_worker p =
      Inr (window_Worker u (prop_options p), [NewWorker u (prop_options p)])"
    using assms by (simp add: resolve_worker_def)
  have t: "has_terminate (window_Worker u (prop_options p))"
      "has_onmessage (window_Worker u (prop_options p))"
    by (simp_all add: window_Worker_def)
  show "effects (componentDidMount p constructor) =
           [NewWorker u (prop_options p),
            Bind (Worker_onmessage (window_Worker u (prop_options p))) This_onMessage,
            Bind (Worker_onerror (window_Worker u (prop_options p))) This_onError]"
    using mount_wiring(5)[OF r t(2), of constructor] by simp
  show "effects (componentWillUnmount p (after (componentDidMount p constructor))) =
           [Terminate (window_Worker u (prop_options p))]"
    using mount_wiring(2)[OF r, of constructor] assms(3) t(1)
    by (simp add: componentWillUnmount_def returns_def)
qed

text \<open>With the \<^verbatim>\<open>worker\<close> prop supplied, unmount terminates nothing.\<close>

lemma unmount_supplied:
  assumes "prop_worker p = Some w"
  shows "componentWillUnmount p b = returns (b\<lparr> mounted := False \<rparr>) []"
  using assms by (simp add: componentWillUnmount_def)

text \<open>
  C4. At unmount the handle is to be terminated exactly when the component constructed
  it from a URL, and never when the caller supplied it. The code does not do this when
  both \<^verbatim>\<open>url\<close> and \<^verbatim>\<open>worker\<close> are supplied. Mount takes the URL first: it constructs a Worker of its own, which is not the supplied one,
  and binds it. Unmount looks at the \<^verbatim>\<open>worker\<close> prop instead, finds it set and
  terminates nothing: the Worker that the component constructed is left running.
\<close>

theorem unmount_both_props_leak:
  "effects (componentDidMount both_props constructor) =
     [NewWorker ''/worker.js'' JUndefined,
      Bind (Worker_onmessage (window_Worker ''/worker.js'' JUndefined)) This_onMessage,
      Bind (Worker_onerror (window_Worker ''/worker.js'' JUndefined)) This_onError]
   \<and> worker (after (componentDidMount both_props constructor)) =
       Some (window_Worker ''/worker.js'' JUndefined)
   \<and> window_Worker ''/worker.js'' JUndefined \<noteq> customWorker
   \<and> raised (componentWillUnmount both_props
        (after (componentDidMount both_props constructor))) = None
   \<and> effects (componentWillUnmount both_props
        (after (componentDidMount both_props constructor))) = []"
  by (simp add: componentDidMount_def resolve_worker_def both_props_def url_props_def
      no_props_def window_Worker_def customWorker_def returns_def componentWillUnmount_def)

section \<open>The conditional helpers\<close>

text \<open>
  C6. Below a component whose state is \<open>st\<close>, \<^verbatim>\<open>Pending\<close> raises nothing and returns its
  content exactly when \<^verbatim>\<open>data\<close> is undefined and either \<^verbatim>\<open>error\<close> is undefined or
  \<^verbatim>\<open>persist\<close> is set; otherwise it returns \<^verbatim>\<open>null\<close>. The content is what the function
  child returns when called with the state, or the static child (\<^verbatim>\<open>null\<close> for a falsy
  one). So it is hidden as soon as \<^verbatim>\<open>data\<close> is present; without \<^verbatim>\<open>persist\<close> it is hidden
  as soon as \<^verbatim>\<open>error\<close> is present; with \<^verbatim>\<open>persist\<close> it returns its content whatever
  \<^verbatim>\<open>error\<close> is, as long as \<^verbatim>\<open>data\<close> is undefined. In terms of events on a mounted
  component: after a message whose parsed payload is defined it is hidden; after an
  error event that carries an error it is hidden unless \<^verbatim>\<open>persist\<close> is set; with
  \<^verbatim>\<open>persist\<close> it still returns its content after an error event if no data had arrived.
\<close>

theorem Pending_condition:
  "Pending dflt (Some st) persist ch =
     Inr (if data st = JUndefined \<and> (error st = JUndefined \<or> persist)
          then (case ch of
                  FunctionContent f \<Rightarrow> f [ArgState st]
                | StaticContent c \<Rightarrow> if truthy c then Node c else Null)
          else Null)
   \<and> (data st \<noteq> JUndefined \<longrightarrow> Pending dflt (Some st) persist ch = Inr Null)
   \<and> (error st \<noteq> JUndefined \<longrightarrow> Pending dflt (Some st) False ch = Inr Null)
   \<and> (Pending dflt (Some st) True ch =
        Inr (if data st = JUndefined
             then (case ch of
                     FunctionContent f \<Rightarrow> f [ArgState st]
                   | StaticContent c \<Rightarrow> if truthy c then Node c else Null)
             else Null))
   \<and> (mounted b \<and> parse p (ev_data m) \<noteq> JUndefined \<longrightarrow>
        Pending dflt (Some (state (after (onMessage p b now m)))) persist ch = Inr Null)
   \<and> (mounted b \<and> ev_error ev \<noteq> JUndefined \<longrightarrow>
        Pending dflt (Some (state (after (onError p b now ev)))) False ch = Inr Null)
   \<and> (mounted b \<and> data (state b) = JUndefined \<longrightarrow>
        Pending dflt (Some (state (after (onError p b now ev)))) True ch =
          Inr (case ch of
                 FunctionContent f \<Rightarrow> f [ArgState (state (after (onError p b now ev)))]
               | StaticContent c \<Rightarrow> if truthy c then Node c else Null))"
  by (simp add: Pending_def Consumer_def Pending_render_def render_children_def
      onMessage_def onError_def returns_def Let_def split: children.splits)

theorem Pending_condition_witness:
  "error failed_state \<noteq> JUndefined
   \<and> Pending context_default (Some failed_state) False (StaticContent (JStr ''pending'')) =
       Inr Null
   \<and> Pending context_default (Some failed_state) True (StaticContent (JStr ''pending'')) =
       Inr (Node (JStr ''pending''))
   \<and> Pending context_default (Some failed_state) True (FunctionContent show_args) =
       Inr (Node (JStr ''state only''))
   \<and> Pending context_default (Some getInitialState) False (StaticContent (JStr [])) =
       Inr Null
   \<and> data received_state \<noteq> JUndefined
   \<and> Pending context_default (Some received_state) True (StaticContent (JStr ''pending'')) =
       Inr Null
   \<and> Pending context_default (Some getInitialState) False (StaticContent (JStr ''pending'')) =
       Inr (Node (JStr ''pending''))
   \<and> mounted (after (componentDidMount url_props constructor))
   \<and> Pending context_default (Some (state (after (onMessage url_props
        (after (componentDidMount url_props constructor)) 1 (MessageEvent (JStr ''foo''))))))
        True (StaticContent (JStr ''pending'')) = Inr Null
   \<and> Pending context_default (Some (state (after (onError url_props
        (after (componentDidMount url_props constructor)) 4 (ErrorEvent (JStr ''boom''))))))
        False (StaticContent (JStr ''pending'')) = Inr Null
   \<and> Pending context_default (Some (state (after (onError url_props
        (after (componentDidMount url_props constructor)) 4 (ErrorEvent (JStr ''boom''))))))
        True (StaticContent (JStr ''pending'')) = Inr (Node (JStr ''pending''))"
proof -
  have f: "error failed_state \<noteq> JUndefined" "data failed_state = JUndefined"
      "data received_state \<noteq> JUndefined"
      "data getInitialState = JUndefined" "error getInitialState = JUndefined"
    by (simp_all add: failed_state_def received_state_def getInitialState_def)
  have m: "mounted (after (componentDidMount url_props constructor))"
      "data (state (after (componentDidMount url_props constructor))) = JUndefined"
    by (simp_all add: mount_url getInitialState_def)
  have p: "parse url_props (ev_data (MessageEvent (JStr ''foo''))) \<noteq> JUndefined"
      "ev_error (ErrorEvent (JStr ''boom'')) \<noteq> JUndefined"
    by (simp_all add: parse_def url_props_def no_props_def)
  have t: "truthy (JStr ''pending'')" "\<not> truthy (JStr [])"
    by simp_all
  note i1 = Pending_condition[where dflt = context_default and st = failed_state
      and persist = False and ch = "StaticContent (JStr ''pending'')"
      and b = "after (componentDidMount url_props constructor)" and p = url_props
      and m = "MessageEvent (JStr ''foo'')" and now = 4 and ev = "ErrorEvent (JStr ''boom'')"]
  note i2 = Pending_condition[where dflt = context_default and st = failed_state
      and persist = True and ch = "FunctionContent show_args"
      and b = "after (componentDidMount url_props constructor)" and p = url_props
      and m = "MessageEvent (JStr ''foo'')" and now = 1 and ev = "ErrorEvent (JStr ''boom'')"]
  note i3 = Pending_condition[where dflt = context_default and st = getInitialState
      and persist = False and ch = "StaticContent (JStr [])"
      and b = "after (componentDidMount url_props constructor)" and p = url_props
      and m = "MessageEvent (JStr ''foo'')" and now = 1 and ev = "ErrorEvent (JStr ''boom'')"]
  note i4 = Pending_condition[where dflt = context_default and st = received_state
      and persist = True and ch = "StaticContent (JStr ''pending'')"
      and b = "after (componentDidMount url_props constructor)" and p = url_props
      and m = "MessageEvent (JStr ''foo'')" and now = 1 and ev = "ErrorEvent (JStr ''boom'')"]
  note i5 = Pending_condition[where dflt = context_default and st = getInitialState
      and persist = False and ch = "StaticContent (JStr ''pending'')"
      and b = "after (componentDidMount url_props constructor)" and p = url_props
      and m = "MessageEvent (JStr ''foo'')" and now = 1 and ev = "ErrorEvent (JStr ''boom'')"]
  from i1 f(1) have a1:
    "Pending context_default (Some failed_state) False (StaticContent (JStr ''pending'')) =
       Inr Null"
    by blast
  from i1 have a2:
    "Pending context_default (Some failed_state) True (StaticContent (JStr ''pending'')) =
       Inr (Node (JStr ''pending''))"
    by (simp add: f(2) t)
  from i2 have a3:
    "Pending context_default (Some failed_state) True (FunctionContent show_args) =
       Inr (Node (JStr ''state only''))"
    by (simp add: f(2))
  from i3 have a4:
    "Pending context_default (Some getInitialState) False (StaticContent (JStr [])) = Inr Null"
    by (simp add: f(4) f(5))
  from i4 f(3) have a5:
    "Pending context_default (Some received_state) True (StaticContent (JStr ''pending'')) =
       Inr Null"
    by blast
  from i5 have a6:
    "Pending context_default (Some getInitialState) False (StaticContent (JStr ''pending'')) =
       Inr (Node (JStr ''pending''))"
    by (simp add: f(4) f(5) t)
  from i4 m(1) p(1) have a7:
    "Pending context_default (Some (state (after (onMessage url_props
        (after (componentDidMount url_props constructor)) 1 (MessageEvent (JStr ''foo''))))))
        True (StaticContent (JStr ''pending'')) = Inr Null"
    by blast
  from i1 m(1) p(2) have a8:
    "Pending context_default (Some (state (after (onError url_props
        (after (componentDidMount url_props constructor)) 4 (ErrorEvent (JStr ''boom''))))))
        False (StaticContent (JStr ''pending'')) = Inr Null"
    by blast
  from i1 m have a9:
    "Pending context_default (Some (state (after (onError url_props
        (after (componentDidMount url_props constructor)) 4 (ErrorEvent (JStr ''boom''))))))
        True (StaticContent (JStr ''pending'')) = Inr (Node (JStr ''pending''))"
    by (simp add: t)
  from f(1) f(3) m(1) a1 a2 a3 a4 a5 a6 a7 a8 a9 show ?thesis by simp
qed

text \<open>
  C8, as the claim is worded, fails in the current revision: with no component above it,
  \<^verbatim>\<open>Pending\<close> receives \<^verbatim>\<open>undefined\<close> and raises a TypeError when it reads \<^verbatim>\<open>state.data\<close>.
\<close>

theorem helper_outside_counterexample:
  "Pending context_default None False (StaticContent (JStr ''pending'')) = Inl TypeError"
  by (simp add: Pending_def Consumer_def Pending_render_def context_default_def)

text \<open>
  C8, amended. With no component above it, a helper reads the default of the context.
  In the current revision the default is \<^verbatim>\<open>undefined\<close>, and each of the three helpers
  raises a TypeError. In the first revision the default is the initial state, and no
  helper raises: \<^verbatim>\<open>Pending\<close> returns its content, \<^verbatim>\<open>Data\<close> and \<^verbatim>\<open>Error\<close> return
  \<^verbatim>\<open>null\<close>.
\<close>

theorem helpers_outside_provider:
  "Consumer dflt None f = f dflt
   \<and> Pending context_default None persist ch = Inl TypeError
   \<and> Data context_default None ch = Inl TypeError
   \<and> Error_helper context_default None ch = Inl TypeError
   \<and> Pending context_default_first None persist ch =
       Inr (render_children ch [ArgState getInitialState])
   \<and> Data context_default_first None ch = Inr Null
   \<and> Error_helper context_default_first None ch = Inr Null"
  by (simp add: Pending_def Data_def Error_helper_def Consumer_def Pending_render_def
      Data_render_def Error_render_def context_default_def context_default_first_def
      getInitialState_def)

end
